theory Spec2Isabelle
  imports Complex_Main
begin

section \<open>Pixel geometry\<close>

text \<open>
  \<open>Renderer.js\<close> computes with the library's \<open>Point\<close> and \<open>Bounds\<close> classes
  (\<open>geometry/Point\<close>, \<open>geometry/Bounds\<close>), which are not part of the file under
  verification. JavaScript numbers are idealised as real numbers throughout; \<open>Math.round\<close>
  is \<open>\<lfloor>x + 1/2\<rfloor>\<close>, which is HOL's \<^const>\<open>round\<close>. A product or sum of doubles is the
  real result up to a relative error of 2^-53; where the real result is a half, or next
  to one, the double may fall on the other side and the rounded pixel is the neighbouring
  integer (\<open>750 * -0.07\<close> is \<open>-52.5\<close>, rounded to \<open>-52\<close>; as doubles it is just below, rounded
  to \<open>-53\<close>). What is stated of a rounded pixel is therefore stated up to one pixel.
\<close>

record point =
  px :: real
  py :: real

text \<open>
  Modelled from the spec: the \<open>Point\<close> class is missing from the sources. The spec uses
  points as pixel vectors (\<open>viewportSize * (0.5 + padding)\<close>, a sum and a difference of
  pixel points, rounding to integer pixels); the four methods below are that vector
  arithmetic, each returning a new point.
\<close>

definition multiplyBy :: "point \<Rightarrow> real \<Rightarrow> point" where
  "multiplyBy a k = \<lparr>px = px a * k, py = py a * k\<rparr>"

definition add_point :: "point \<Rightarrow> point \<Rightarrow> point" where
  "add_point a b = \<lparr>px = px a + px b, py = py a + py b\<rparr>"

definition subtract :: "point \<Rightarrow> point \<Rightarrow> point" where
  "subtract a b = \<lparr>px = px a - px b, py = py a - py b\<rparr>"

definition round_point :: "point \<Rightarrow> point" where
  "round_point a = \<lparr>px = of_int (round (px a)), py = of_int (round (py a))\<rparr>"

record pixel_bounds =
  bmin :: point
  bmax :: point

text \<open>
  Modelled from the spec: the \<open>Bounds\<close> class is missing from the sources. The spec's
  PixelBounds is an axis-aligned rectangle \<open>{min, max}\<close> with \<open>min.x \<le> max.x\<close> and
  \<open>min.y \<le> max.y\<close>; \<open>new Bounds(a, b)\<close> is the rectangle spanned by the two corner
  points it is given.
\<close>

definition new_Bounds :: "point \<Rightarrow> point \<Rightarrow> pixel_bounds" where
  "new_Bounds a b =
     \<lparr>bmin = \<lparr>px = min (px a) (px b), py = min (py a) (py b)\<rparr>,
      bmax = \<lparr>px = max (px a) (px b), py = max (py a) (py b)\<rparr>\<rparr>"

definition width :: "pixel_bounds \<Rightarrow> real" where
  "width b = px (bmax b) - px (bmin b)"

definition height :: "pixel_bounds \<Rightarrow> real" where
  "height b = py (bmax b) - py (bmin b)"

definition bounds_center :: "pixel_bounds \<Rightarrow> point" where
  "bounds_center b =
     \<lparr>px = (px (bmin b) + px (bmax b)) / 2, py = (py (bmin b) + py (bmax b)) / 2\<rparr>"


section \<open>The host viewport\<close>

text \<open>
  The map (\<open>this._map\<close>) is an external collaborator. Its methods are parameters of the
  model: a viewport value is the map as a handler finds it when it runs. The cached zoom
  and center are passed to it as the renderer holds them, that is possibly \<open>undefined\<close>
  (\<open>None\<close>) when no \<open>_update\<close> has run yet.
\<close>

record 'geo viewport =
  getSize :: point
  getCenter :: 'geo
  getZoom :: real
  getZoomScale :: "real \<Rightarrow> real option \<Rightarrow> real"
  project :: "'geo option \<Rightarrow> real \<Rightarrow> point"
  containerPointToLayerPoint :: "point \<Rightarrow> point"
  getNewPixelOrigin :: "'geo \<Rightarrow> real \<Rightarrow> point"


section \<open>The renderer object\<close>

datatype handler =
  M_reset | M_onZoom | M_update | M_onZoomEnd | M_onAnimZoom | M_updatePaths

datatype callback = CB_reset | CB_project | CB_update

text \<open>
  The trace lists, in program order, what a method does beyond computing: the calls that
  leave the class (the backend's hooks, the DOM, the renderer's own event subscription,
  the firing of its \<open>update\<close> notification, the callbacks of the member shapes) and the
  three stores of \<open>_update\<close> that replace the cached view.
\<close>

datatype ('geo, 'shape) action =
    InitContainer
  | ClassListAdd string
  | AppendChild
  | DestroyContainer
  | On string handler
  | Off string handler
  | SetTransform point real
  | ShapeCall callback nat 'shape
  | SetBounds pixel_bounds
  | SetCenter 'geo
  | SetZoom real
  | Fire string

text \<open>
  The fields of a renderer. \<open>padding\<close> is \<open>this.options.padding\<close>; \<open>layers\<close> is the
  registry \<open>this._layers\<close>, an object keyed by shape identifier, kept as the list of its
  entries in the order \<open>for ... in\<close> visits them (keys are distinct); a field that has
  not been assigned yet is \<open>None\<close> (\<open>False\<close> for the container and the animation flag).

  Two fields say how the object is wired. \<open>update_listener\<close> tells whether \<open>_updatePaths\<close> is
  subscribed to the renderer's \<open>update\<close> notification (\<open>onAdd\<close> subscribes it, \<open>onRemove\<close>
  unsubscribes it; a subscription is idempotent). \<open>fires_update\<close> tells which \<open>_update\<close> a
  call \<open>this._update()\<close> reaches: the class's own (\<open>False\<close>), or that of a backend, which
  extends it (\<open>True\<close>, see \<open>this_update\<close> below).
\<close>

record ('geo, 'shape) renderer =
  padding :: real
  leaflet_id :: "nat option"
  layers :: "(nat \<times> 'shape) list option"
  container :: bool
  zoomAnimated :: bool
  bounds :: "pixel_bounds option"
  center :: "'geo option"
  zoom :: "real option"
  fires_update :: bool
  update_listener :: bool
  trace :: "('geo, 'shape) action list"

text \<open>
  The object \<open>new Renderer\<close> starts from: nothing assigned, nothing subscribed, the
  class's own methods, and the options inherited from the class
  (\<open>options: {padding: 0.1}\<close>).
\<close>

definition prototype :: "('geo, 'shape) renderer" where
  "prototype =
     \<lparr>padding = 1 / 10, leaflet_id = None, layers = None, container = False,
      zoomAnimated = False, bounds = None, center = None, zoom = None,
      fires_update = False, update_listener = False, trace = []\<rparr>"

record renderer_options =
  opt_padding :: "real option"

text \<open>
  \<open>initialize\<close> is three statements: \<open>Util.setOptions(this, options)\<close>, \<open>Util.stamp(this)\<close>
  and \<open>this._layers = this._layers || {}\<close>. None of them tests a value, and what the two
  calls return is dropped. The two utilities belong to the library's \<open>core/Util\<close>, outside
  the file under verification: \<open>setOptions\<close> copies every option it is given over the
  object's options, so that an option left out keeps the class's value, and \<open>stamp\<close> gives
  the object the next identifier of the library's counter unless it already has one. The
  argument \<open>options\<close> may be left out altogether (\<open>None\<close>), and so may the padding in it.
\<close>

definition setOptions ::
  "('geo, 'shape) renderer \<Rightarrow> renderer_options option \<Rightarrow> ('geo, 'shape) renderer" where
  "setOptions obj options =
     (case options of
        None \<Rightarrow> obj
      | Some opts \<Rightarrow>
          (case opt_padding opts of None \<Rightarrow> obj | Some p \<Rightarrow> obj\<lparr>padding := p\<rparr>))"

definition stamp :: "nat \<Rightarrow> ('geo, 'shape) renderer \<Rightarrow> ('geo, 'shape) renderer" where
  "stamp lastId obj =
     (case leaflet_id obj of
        None \<Rightarrow> obj\<lparr>leaflet_id := Some (lastId + 1)\<rparr>
      | Some i \<Rightarrow> obj)"

definition initialize ::
  "renderer_options option \<Rightarrow> nat \<Rightarrow> ('geo, 'shape) renderer \<Rightarrow> ('geo, 'shape) renderer" where
  "initialize options lastId this =
     (let s1 = setOptions this options;
          s2 = stamp lastId s1
      in s2\<lparr>layers := (case layers s2 of None \<Rightarrow> Some [] | Some ls \<Rightarrow> Some ls)\<rparr>)"


section \<open>Bounds and transform\<close>

text \<open>
  A method \<open>_name\<close> of the class is the function \<open>name\<close> here; it takes the map it runs
  against and the renderer, and returns the renderer as the method leaves it. The local
  names are the source's.
\<close>

definition update ::
  "'geo viewport \<Rightarrow> ('geo, 'shape) renderer \<Rightarrow> ('geo, 'shape) renderer" where
  "update vp s =
     (let p = padding s;
          size = getSize vp;
          min = round_point (containerPointToLayerPoint vp (multiplyBy size (- p)));
          b = new_Bounds min (round_point (add_point min (multiplyBy size (1 + p * 2))));
          c = getCenter vp;
          z = getZoom vp
      in s\<lparr>bounds := Some b, center := Some c, zoom := Some z,
            trace := trace s @ [SetBounds b, SetCenter c, SetZoom z]\<rparr>)"

definition updateTransform ::
  "'geo viewport \<Rightarrow> 'geo \<Rightarrow> real \<Rightarrow> ('geo, 'shape) renderer \<Rightarrow> ('geo, 'shape) renderer" where
  "updateTransform vp center' zoom' s =
     (let scale = getZoomScale vp zoom' (zoom s);
          viewHalf = multiplyBy (getSize vp) (0.5 + padding s);
          currentCenterPoint = project vp (center s) zoom';
          topLeftOffset =
            subtract (add_point (multiplyBy viewHalf (- scale)) currentCenterPoint)
              (getNewPixelOrigin vp center' zoom')
      in s\<lparr>trace := trace s @ [SetTransform topLeftOffset scale]\<rparr>)"


section \<open>Dispatch to the member shapes\<close>

definition registered :: "('geo, 'shape) renderer \<Rightarrow> (nat \<times> 'shape) list" where
  "registered s = (case layers s of None \<Rightarrow> [] | Some ls \<Rightarrow> ls)"

definition for_in_layers ::
  "callback \<Rightarrow> ('geo, 'shape) renderer \<Rightarrow> ('geo, 'shape) renderer" where
  "for_in_layers cb s =
     s\<lparr>trace := trace s @ map (\<lambda>(id, shape). ShapeCall cb id shape) (registered s)\<rparr>"

definition onZoomEnd :: "('geo, 'shape) renderer \<Rightarrow> ('geo, 'shape) renderer" where
  "onZoomEnd s = for_in_layers CB_project s"

definition updatePaths :: "('geo, 'shape) renderer \<Rightarrow> ('geo, 'shape) renderer" where
  "updatePaths s = for_in_layers CB_update s"


section \<open>The update notification and the reset\<close>

text \<open>
  Modelled from the spec: the class documents an event \<open>update\<close>, "Fired when the renderer
  updates its bounds, center and zoom", and \<open>_update\<close> says "Subclasses are responsible of
  firing the 'update' event"; the backends that do so are missing from the sources. In
  the spec the \<open>update\<close> notification is fired by the bounds recomputation, and on it every
  registered shape receives \<open>_update()\<close>. So the \<open>_update\<close> of a backend runs the class's
  method and then fires \<open>update\<close>, which runs \<open>_updatePaths\<close> when that is subscribed.
  \<open>this_update\<close> is what a call \<open>this._update()\<close> runs: on an object of the class alone,
  \<open>update\<close> itself.
\<close>

definition fire_update :: "('geo, 'shape) renderer \<Rightarrow> ('geo, 'shape) renderer" where
  "fire_update s =
     (let s1 = s\<lparr>trace := trace s @ [Fire ''update'']\<rparr>
      in if update_listener s1 then updatePaths s1 else s1)"

definition this_update ::
  "'geo viewport \<Rightarrow> ('geo, 'shape) renderer \<Rightarrow> ('geo, 'shape) renderer" where
  "this_update vp s =
     (let s1 = update vp s
      in if fires_update s1 then fire_update s1 else s1)"

text \<open>
  \<open>_reset\<close> passes \<open>this._center\<close> and \<open>this._zoom\<close> on to \<open>_updateTransform\<close> right after
  \<open>_update\<close> has stored them, so both are there to read.
\<close>

definition reset ::
  "'geo viewport \<Rightarrow> ('geo, 'shape) renderer \<Rightarrow> ('geo, 'shape) renderer" where
  "reset vp s =
     (let s1 = this_update vp s;
          s2 = updateTransform vp (the (center s1)) (the (zoom s1)) s1
      in for_in_layers CB_reset s2)"


section \<open>Lifecycle and notifications\<close>

text \<open>
  Modelled from the spec: the hooks \<open>_initContainer\<close> and \<open>_destroyContainer\<close> are "defined
  by renderer implementations", which are missing from the sources. The concrete backend
  owns the drawable surface: the first hook creates it and leaves it in \<open>this._container\<close>
  (\<open>onAdd\<close> reads it in its next statement), the second releases it on detach.
\<close>

definition onAdd ::
  "'geo viewport \<Rightarrow> ('geo, 'shape) renderer \<Rightarrow> ('geo, 'shape) renderer" where
  "onAdd vp s =
     (let s1 = (if \<not> container s
                then s\<lparr>container := True,
                       trace := trace s @ [InitContainer, ClassListAdd ''leaflet-zoom-animated'']\<rparr>
                else s);
          s2 = s1\<lparr>trace := trace s1 @ [AppendChild]\<rparr>;
          s3 = this_update vp s2
      in s3\<lparr>update_listener := True, trace := trace s3 @ [On ''update'' M_updatePaths]\<rparr>)"

definition onRemove :: "('geo, 'shape) renderer \<Rightarrow> ('geo, 'shape) renderer" where
  "onRemove s =
     s\<lparr>update_listener := False, container := False,
       trace := trace s @ [Off ''update'' M_updatePaths, DestroyContainer]\<rparr>"

definition getEvents :: "('geo, 'shape) renderer \<Rightarrow> (string \<times> handler) list" where
  "getEvents s =
     [(''viewreset'', M_reset), (''zoom'', M_onZoom), (''moveend'', M_update),
      (''zoomend'', M_onZoomEnd)]
     @ (if zoomAnimated s then [(''zoomanim'', M_onAnimZoom)] else [])"

text \<open>
  The event object a handler receives. \<open>_onAnimZoom\<close> reads \<open>ev.center\<close> and \<open>ev.zoom\<close>; the
  other handlers read nothing of it.
\<close>

record 'geo event =
  ev_center :: 'geo
  ev_zoom :: real

definition onAnimZoom ::
  "'geo viewport \<Rightarrow> 'geo event \<Rightarrow> ('geo, 'shape) renderer \<Rightarrow> ('geo, 'shape) renderer" where
  "onAnimZoom vp ev s = updateTransform vp (ev_center ev) (ev_zoom ev) s"

definition onZoom ::
  "'geo viewport \<Rightarrow> ('geo, 'shape) renderer \<Rightarrow> ('geo, 'shape) renderer" where
  "onZoom vp s = updateTransform vp (getCenter vp) (getZoom vp) s"

text \<open>
  Modelled from the spec: the event machinery of the library (\<open>Evented\<close>, \<open>Layer\<close>) is
  missing from the sources. The host viewport raises notifications of a kind
  (\<open>viewreset\<close>, \<open>zoom\<close>, \<open>moveend\<close>, \<open>zoomend\<close>, and \<open>zoomanim\<close> carrying the
  interpolated center and zoom); the renderer handles one by running the method that
  \<open>getEvents\<close> lists under that kind, and ignores a kind it does not list. \<open>getEvents\<close>
  reads the methods off the object (\<open>this._update\<close>), so \<open>moveend\<close> runs the \<open>_update\<close> the
  object is wired to.
\<close>

definition invoke ::
  "handler \<Rightarrow> 'geo viewport \<Rightarrow> 'geo event \<Rightarrow> ('geo, 'shape) renderer
     \<Rightarrow> ('geo, 'shape) renderer" where
  "invoke h vp ev s =
     (case h of
        M_reset \<Rightarrow> reset vp s
      | M_onZoom \<Rightarrow> onZoom vp s
      | M_update \<Rightarrow> this_update vp s
      | M_onZoomEnd \<Rightarrow> onZoomEnd s
      | M_onAnimZoom \<Rightarrow> onAnimZoom vp ev s
      | M_updatePaths \<Rightarrow> updatePaths s)"

definition notify ::
  "'geo viewport \<Rightarrow> string \<Rightarrow> 'geo event \<Rightarrow> ('geo, 'shape) renderer
     \<Rightarrow> ('geo, 'shape) renderer" where
  "notify vp kind ev s =
     (case map_of (getEvents s) kind of
        None \<Rightarrow> s
      | Some h \<Rightarrow> invoke h vp ev s)"


section \<open>Reading a trace\<close>

text \<open>
  The shapes that received a given callback, and the transforms set on the container, in
  the order of the trace.
\<close>

fun shape_calls :: "callback \<Rightarrow> ('geo, 'shape) action list \<Rightarrow> (nat \<times> 'shape) list" where
  "shape_calls cb [] = []"
| "shape_calls cb (ShapeCall cb' i shape # t) =
     (if cb' = cb then (i, shape) # shape_calls cb t else shape_calls cb t)"
| "shape_calls cb (_ # t) = shape_calls cb t"

fun transforms :: "('geo, 'shape) action list \<Rightarrow> (point \<times> real) list" where
  "transforms [] = []"
| "transforms (SetTransform offset scale # t) = (offset, scale) # transforms t"
| "transforms (_ # t) = transforms t"


section \<open>Properties of a viewport, and examples to run\<close>

text \<open>
  The map converts a container point to a layer point by subtracting the position of its
  pane: the conversion is a translation by some vector \<open>d\<close>.
\<close>

definition translation :: "'geo viewport \<Rightarrow> point \<Rightarrow> bool" where
  "translation vp d = (\<forall>a. containerPointToLayerPoint vp a = subtract a d)"

text \<open>
  A viewport to run the methods on: a map in a flat coordinate system, a geographic point
  being a pair \<open>(lat, lng)\<close>, with one pixel per unit at zoom 0 and twice as many at each
  further level; its pane has been dragged by \<open>pane\<close>, and its pixel origin is the rounded
  top left corner of the view.
\<close>

definition flat_project :: "(real \<times> real) option \<Rightarrow> real \<Rightarrow> point" where
  "flat_project c z =
     (case c of
        None \<Rightarrow> \<lparr>px = 0, py = 0\<rparr>
      | Some (lat, lng) \<Rightarrow> \<lparr>px = lng * 2 powr z, py = - lat * 2 powr z\<rparr>)"

definition flat_map ::
  "point \<Rightarrow> point \<Rightarrow> real \<times> real \<Rightarrow> real \<Rightarrow> (real \<times> real) viewport" where
  "flat_map sz pane c z =
     \<lparr>getSize = sz, getCenter = c, getZoom = z,
      getZoomScale = (\<lambda>toZoom fromZoom.
         2 powr toZoom / 2 powr (case fromZoom of None \<Rightarrow> z | Some f \<Rightarrow> f)),
      project = flat_project,
      containerPointToLayerPoint = (\<lambda>a. subtract a pane),
      getNewPixelOrigin = (\<lambda>c' z'.
         round_point (add_point (subtract (flat_project (Some c') z') (multiplyBy sz (1 / 2))) pane))\<rparr>"

definition map_800x600 :: "(real \<times> real) viewport" where
  "map_800x600 = flat_map \<lparr>px = 800, py = 600\<rparr> \<lparr>px = 0, py = 0\<rparr> (0, 0) 5"

definition map_803x600 :: "(real \<times> real) viewport" where
  "map_803x600 = flat_map \<lparr>px = 803, py = 600\<rparr> \<lparr>px = 0, py = 0\<rparr> (0, 0) 5"

text \<open>
  A renderer to run them on: constructed with no options on an object that already holds
  two shapes, named by strings here.
\<close>

definition two_shapes :: "(real \<times> real, string) renderer" where
  "two_shapes =
     initialize None 0 (prototype\<lparr>layers := Some [(3, ''polyline''), (8, ''circle'')]\<rparr>)"


text \<open>
  The same renderer on a map that animates its zooms, once added to the 800 by 600 map;
  a frame of a zoom animation towards level 6, and the event of a settled pan.
\<close>

definition attached :: "(real \<times> real, string) renderer" where
  "attached = onAdd map_800x600 (two_shapes\<lparr>zoomAnimated := True\<rparr>)"

text \<open>
  The renderer of a backend, which fires \<open>update\<close>, with the same two shapes, once added
  to the 800 by 600 map.
\<close>

definition backend_attached :: "(real \<times> real, string) renderer" where
  "backend_attached = onAdd map_800x600 (two_shapes\<lparr>fires_update := True\<rparr>)"

definition frame_to_6 :: "(real \<times> real) event" where
  "frame_to_6 = \<lparr>ev_center = (0, 0), ev_zoom = 6\<rparr>"

definition settled :: "(real \<times> real) event" where
  "settled = \<lparr>ev_center = (0, 0), ev_zoom = 5\<rparr>"


section \<open>Facts about rounding and the methods' fields\<close>

lemma round_int_add: "round (of_int n + x :: real) = n + round x"
  unfolding round_def by (simp add: add.assoc)

lemma round_nonneg: "0 \<le> (x::real) \<Longrightarrow> 0 \<le> round x"
  using round_mono [of 0 x] by simp

lemma round_near: "\<bar>of_int (round x) - (x::real)\<bar> < 1"
  using of_int_round_abs_le [of x] by linarith

lemma update_fields:
  "bounds (update vp s) =
     Some (new_Bounds
       (round_point (containerPointToLayerPoint vp (multiplyBy (getSize vp) (- padding s))))
       (round_point (add_point
          (round_point (containerPointToLayerPoint vp (multiplyBy (getSize vp) (- padding s))))
          (multiplyBy (getSize vp) (1 + padding s * 2)))))"
  "center (update vp s) = Some (getCenter vp)"
  "zoom (update vp s) = Some (getZoom vp)"
  "layers (update vp s) = layers s"
  "padding (update vp s) = padding s"
  "container (update vp s) = container s"
  "zoomAnimated (update vp s) = zoomAnimated s"
  "leaflet_id (update vp s) = leaflet_id s"
  "fires_update (update vp s) = fires_update s"
  "update_listener (update vp s) = update_listener s"
  by (simp_all add: update_def Let_def)


lemma span_up:
  fixes a :: int and w :: real
  assumes "0 \<le> w"
  shows "min (of_int a) (of_int (round (of_int a + w)) :: real) = of_int a"
    and "max (of_int a) (of_int (round (of_int a + w)) :: real) = of_int a + of_int (round w)"
  using round_nonneg [OF assms] by (simp_all add: round_int_add)

lemma center_err:
  fixes a w :: real
  shows "\<bar>(of_int (round a) + (of_int (round a) + of_int (round w))) / 2 - (a + w / 2)\<bar> \<le> 3 / 4"
proof -
  have "a - 1 / 2 \<le> of_int (round a)" "of_int (round a) \<le> a + 1 / 2"
       "w - 1 / 2 \<le> of_int (round w)" "of_int (round w) \<le> w + 1 / 2"
    by (rule of_int_round_ge of_int_round_le)+
  then show ?thesis
    unfolding abs_le_iff by (simp add: field_simps)
qed

text \<open>
  The rectangle that \<open>update\<close> stores, over the reals: for a size with non-negative sides
  and a non-negative padding, its corners are the rounded corner and that corner moved by
  the rounded extent.
\<close>

lemma update_rectangle:
  assumes p: "0 \<le> padding s"
      and sx: "0 \<le> px (getSize vp)" and sy: "0 \<le> py (getSize vp)"
  shows "\<exists>b. bounds (update vp s) = Some b
           \<and> bmin b = round_point (containerPointToLayerPoint vp (multiplyBy (getSize vp) (- padding s)))
           \<and> bmax b =
               \<lparr>px = px (bmin b) + of_int (round (px (getSize vp) * (1 + padding s * 2))),
                py = py (bmin b) + of_int (round (py (getSize vp) * (1 + padding s * 2)))\<rparr>"
proof -
  let ?S = "getSize vp" and ?p = "padding s"
  let ?c = "containerPointToLayerPoint vp (multiplyBy ?S (- ?p))"
  let ?b = "new_Bounds (round_point ?c)
              (round_point (add_point (round_point ?c) (multiplyBy ?S (1 + ?p * 2))))"
  have wx: "0 \<le> px ?S * (1 + ?p * 2)" and wy: "0 \<le> py ?S * (1 + ?p * 2)"
    using p sx sy by simp_all
  have mn: "bmin ?b = round_point ?c"
    using span_up(1) [OF wx, of "round (px ?c)"] span_up(1) [OF wy, of "round (py ?c)"]
    by (simp add: new_Bounds_def round_point_def add_point_def multiplyBy_def)
  have mx: "bmax ?b = \<lparr>px = of_int (round (px ?c)) + of_int (round (px ?S * (1 + ?p * 2))),
                         py = of_int (round (py ?c)) + of_int (round (py ?S * (1 + ?p * 2)))\<rparr>"
    using span_up(2) [OF wx, of "round (px ?c)"] span_up(2) [OF wy, of "round (py ?c)"]
    by (simp add: new_Bounds_def round_point_def add_point_def multiplyBy_def)
  show ?thesis
    by (intro exI [of _ ?b]) (simp add: update_fields mn mx, simp add: round_point_def)
qed

lemma shape_calls_append:
  "shape_calls cb (xs @ ys) = shape_calls cb xs @ shape_calls cb ys"
  by (induction cb xs rule: shape_calls.induct) simp_all

lemma transforms_append: "transforms (xs @ ys) = transforms xs @ transforms ys"
  by (induction xs rule: transforms.induct) simp_all

lemma shape_calls_dispatch:
  "shape_calls cb (map (\<lambda>(id, shape). ShapeCall cb' id shape) ls) = (if cb' = cb then ls else [])"
  by (induction ls) auto

lemma transforms_dispatch:
  "transforms (map (\<lambda>(id, shape). ShapeCall cb id shape) ls) = []"
  by (induction ls) auto

lemma for_in_layers_fields:
  "trace (for_in_layers cb s) = trace s @ map (\<lambda>(id, shape). ShapeCall cb id shape) (registered s)"
  "layers (for_in_layers cb s) = layers s"
  "bounds (for_in_layers cb s) = bounds s"
  "center (for_in_layers cb s) = center s"
  "zoom (for_in_layers cb s) = zoom s"
  "padding (for_in_layers cb s) = padding s"
  by (simp_all add: for_in_layers_def)

lemma updateTransform_fields:
  "layers (updateTransform vp c z s) = layers s"
  "bounds (updateTransform vp c z s) = bounds s"
  "center (updateTransform vp c z s) = center s"
  "zoom (updateTransform vp c z s) = zoom s"
  "padding (updateTransform vp c z s) = padding s"
  by (simp_all add: updateTransform_def Let_def)

lemma registered_update [simp]: "registered (update vp s) = registered s"
  by (simp add: registered_def update_fields)

lemma registered_updateTransform [simp]: "registered (updateTransform vp c z s) = registered s"
  by (simp add: registered_def updateTransform_fields)

text \<open>What \<open>this._update()\<close> adds to \<open>update\<close>: the notification and its callbacks.\<close>

lemma this_update_eq:
  "this_update vp s =
     (update vp s)\<lparr>trace := trace (update vp s)
        @ (if fires_update s
           then Fire ''update''
             # (if update_listener s
                then map (\<lambda>(id, shape). ShapeCall CB_update id shape) (registered s)
                else [])
           else [])\<rparr>"
  by (simp add: this_update_def fire_update_def updatePaths_def for_in_layers_def Let_def
        update_fields registered_def)

lemma this_update_fields:
  "bounds (this_update vp s) = bounds (update vp s)"
  "center (this_update vp s) = Some (getCenter vp)"
  "zoom (this_update vp s) = Some (getZoom vp)"
  "layers (this_update vp s) = layers s"
  "padding (this_update vp s) = padding s"
  "registered (this_update vp s) = registered s"
  by (simp_all add: this_update_eq update_fields registered_def)

lemma this_update_calls:
  "shape_calls cb (trace (this_update vp s))
     = shape_calls cb (trace s)
       @ (if cb = CB_update \<and> fires_update s \<and> update_listener s then registered s else [])"
  "transforms (trace (this_update vp s)) = transforms (trace s)"
  by (simp_all add: this_update_eq shape_calls_append transforms_append shape_calls_dispatch
        transforms_dispatch)
     (simp_all add: update_def Let_def shape_calls_append transforms_append)

lemma notify_kinds:
  "notify vp ''viewreset'' ev s = reset vp s"
  "notify vp ''zoom'' ev s = onZoom vp s"
  "notify vp ''moveend'' ev s = this_update vp s"
  "notify vp ''zoomend'' ev s = onZoomEnd s"
  by (simp_all add: notify_def getEvents_def invoke_def)

lemma onAdd_fields:
  "layers (onAdd vp s) = layers s"
  "padding (onAdd vp s) = padding s"
  "zoomAnimated (onAdd vp s) = zoomAnimated s"
  "fires_update (onAdd vp s) = fires_update s"
  "update_listener (onAdd vp s) = True"
  "container (onAdd vp s) = True"
  "center (onAdd vp s) = Some (getCenter vp)"
  "zoom (onAdd vp s) = Some (getZoom vp)"
  by (simp_all add: onAdd_def Let_def this_update_eq update_def)

lemma onRemove_fields: "layers (onRemove s) = layers s"
  by (simp add: onRemove_def)

lemma initialize_fields:
  "padding (initialize options lastId this) =
     (case options of
        None \<Rightarrow> padding this
      | Some opts \<Rightarrow> (case opt_padding opts of None \<Rightarrow> padding this | Some p \<Rightarrow> p))"
  "layers (initialize options lastId this) = Some (registered this)"
  "trace (initialize options lastId this) = trace this"
  "center (initialize options lastId this) = center this"
  "zoom (initialize options lastId this) = zoom this"
  "bounds (initialize options lastId this) = bounds this"
  by (simp_all add: initialize_def setOptions_def stamp_def Let_def registered_def
        split: option.splits)

lemma reset_layers: "layers (reset vp s) = layers s"
  by (simp add: reset_def Let_def for_in_layers_fields updateTransform_fields this_update_fields)

lemma invoke_layers: "layers (invoke h vp ev s) = layers s"
  by (cases h)
     (simp_all add: invoke_def reset_layers onZoom_def onAnimZoom_def onZoomEnd_def
        updatePaths_def for_in_layers_fields updateTransform_fields this_update_fields)

lemma notify_layers: "layers (notify vp kind ev s) = layers s"
  by (simp add: notify_def invoke_layers split: option.splits)


lemma reset_calls:
  "shape_calls CB_reset (trace (reset vp s)) = shape_calls CB_reset (trace s) @ registered s"
  by (simp add: reset_def Let_def for_in_layers_fields shape_calls_append shape_calls_dispatch
        this_update_fields registered_def updateTransform_fields)
     (simp add: updateTransform_def Let_def shape_calls_append this_update_calls)

lemma two_shapes_fields:
  "padding two_shapes = 1 / 10" "layers two_shapes = Some [(3, ''polyline''), (8, ''circle'')]"
  "trace two_shapes = []" "container two_shapes = False" "zoomAnimated two_shapes = False"
  "center two_shapes = None" "zoom two_shapes = None" "bounds two_shapes = None"
  "fires_update two_shapes = False" "update_listener two_shapes = False"
  by (simp_all add: two_shapes_def initialize_def setOptions_def stamp_def prototype_def Let_def)

lemma map_800x600_fields:
  "getSize map_800x600 = \<lparr>px = 800, py = 600\<rparr>"
  "getCenter map_800x600 = (0, 0)" "getZoom map_800x600 = 5"
  "containerPointToLayerPoint map_800x600 a = a"
  "getZoomScale map_800x600 5 (Some 5) = 1"
  "project map_800x600 (Some (0, 0)) z = \<lparr>px = 0, py = 0\<rparr>"
  "getNewPixelOrigin map_800x600 (0, 0) z = \<lparr>px = - 400, py = - 300\<rparr>"
  by (simp_all add: map_800x600_def flat_map_def flat_project_def subtract_def add_point_def
        multiplyBy_def round_point_def)

lemma map_803x600_fields:
  "getSize map_803x600 = \<lparr>px = 803, py = 600\<rparr>"
  "getCenter map_803x600 = (0, 0)" "getZoom map_803x600 = 5"
  "containerPointToLayerPoint map_803x600 a = a"
  by (simp_all add: map_803x600_def flat_map_def flat_project_def subtract_def add_point_def
        multiplyBy_def round_point_def)

lemma update_800x600:
  "bounds (update map_800x600 two_shapes)
     = Some \<lparr>bmin = \<lparr>px = - 80, py = - 60\<rparr>, bmax = \<lparr>px = 880, py = 660\<rparr>\<rparr>"
  by (simp add: update_fields two_shapes_fields map_800x600_fields multiplyBy_def add_point_def
        round_point_def new_Bounds_def round_def)

lemma update_803x600:
  "bounds (update map_803x600 two_shapes)
     = Some \<lparr>bmin = \<lparr>px = - 80, py = - 60\<rparr>, bmax = \<lparr>px = 884, py = 660\<rparr>\<rparr>"
  by (simp add: update_fields two_shapes_fields map_803x600_fields multiplyBy_def add_point_def
        round_point_def new_Bounds_def round_def)

lemma attached_fields:
  "zoomAnimated attached" "padding attached = 1 / 10"
  "center attached = Some (0, 0)" "zoom attached = Some 5"
  "layers attached = Some [(3, ''polyline''), (8, ''circle'')]"
  "bounds attached = Some \<lparr>bmin = \<lparr>px = - 80, py = - 60\<rparr>, bmax = \<lparr>px = 880, py = 660\<rparr>\<rparr>"
  "fires_update attached = False" "update_listener attached"
  using update_800x600
  by (simp_all add: attached_def onAdd_fields two_shapes_fields map_800x600_fields)
     (simp add: onAdd_def Let_def this_update_eq update_def two_shapes_fields)

lemma backend_attached_fields:
  "padding backend_attached = 1 / 10"
  "layers backend_attached = Some [(3, ''polyline''), (8, ''circle'')]"
  "fires_update backend_attached" "update_listener backend_attached"
  "trace backend_attached =
     [InitContainer, ClassListAdd ''leaflet-zoom-animated'', AppendChild,
      SetBounds \<lparr>bmin = \<lparr>px = - 80, py = - 60\<rparr>, bmax = \<lparr>px = 880, py = 660\<rparr>\<rparr>,
      SetCenter (0, 0), SetZoom 5, Fire ''update'', On ''update'' M_updatePaths]"
  using update_800x600
  by (simp_all add: backend_attached_def onAdd_fields two_shapes_fields map_800x600_fields)
     (simp add: onAdd_def Let_def this_update_eq update_def two_shapes_fields
        map_800x600_fields)

lemma frame6:
  "getZoomScale map_800x600 6 (Some 5) = 2"
  "project map_800x600 (Some (0, 0)) 6 = \<lparr>px = 0, py = 0\<rparr>"
  "getNewPixelOrigin map_800x600 (0, 0) 6 = \<lparr>px = - 400, py = - 300\<rparr>"
  by (simp_all add: map_800x600_def flat_map_def flat_project_def subtract_def add_point_def
        multiplyBy_def round_point_def)


section \<open>The incremental transform\<close>

text \<open>
  C1. For every center and zoom given to \<open>_updateTransform\<close>, the scale is the viewport's
  \<open>getZoomScale(zoom, cachedZoom)\<close>, and the offset is, in each coordinate,
  \<open>size * (0.5 + padding) * (- scale) + project(cachedCenter, zoom) -
  newPixelOrigin(center, zoom)\<close>; the one effect of the method is to set the container's
  transform to that offset and scale.
\<close>

theorem updateTransform_formula:
  "updateTransform vp c z s =
     s\<lparr>trace := trace s @
         [SetTransform
            \<lparr>px = px (getSize vp) * (0.5 + padding s) * (- getZoomScale vp z (zoom s))
                  + px (project vp (center s) z) - px (getNewPixelOrigin vp c z),
             py = py (getSize vp) * (0.5 + padding s) * (- getZoomScale vp z (zoom s))
                  + py (project vp (center s) z) - py (getNewPixelOrigin vp c z)\<rparr>
            (getZoomScale vp z (zoom s))]\<rparr>"
  by (simp add: updateTransform_def Let_def multiplyBy_def add_point_def subtract_def)


section \<open>Recomputing the bounds\<close>

text \<open>
  C2. For every viewport size \<open>S\<close> (with non-negative sides) and every padding \<open>p \<ge> 0\<close>,
  \<open>_update\<close> stores a rectangle whose min corner is \<open>containerPointToLayerPoint(S * -p)\<close>
  rounded (a point of whole pixels, less than one pixel from that point on each axis),
  whose width is within one pixel of \<open>round(S.x * (1 + 2p))\<close>, and the height likewise, and
  which is centred, to within one pixel on each axis, on the viewport's centre, the layer
  point \<open>containerPointToLayerPoint(S * 0.5)\<close> of a viewport whose conversion from container
  to layer points is a translation; the cached center and zoom become the viewport's
  current ones.
\<close>

theorem update_bounds:
  assumes p: "0 \<le> padding s"
      and sx: "0 \<le> px (getSize vp)" and sy: "0 \<le> py (getSize vp)"
  shows "\<exists>b. bounds (update vp s) = Some b
           \<and> px (bmin b) \<in> \<int> \<and> py (bmin b) \<in> \<int>
           \<and> \<bar>px (bmin b)
                - px (containerPointToLayerPoint vp (multiplyBy (getSize vp) (- padding s)))\<bar> < 1
           \<and> \<bar>py (bmin b)
                - py (containerPointToLayerPoint vp (multiplyBy (getSize vp) (- padding s)))\<bar> < 1
           \<and> \<bar>width b - of_int (round (px (getSize vp) * (1 + 2 * padding s)))\<bar> \<le> 1
           \<and> \<bar>height b - of_int (round (py (getSize vp) * (1 + 2 * padding s)))\<bar> \<le> 1
           \<and> (translation vp d \<longrightarrow>
                \<bar>px (bounds_center b)
                   - px (containerPointToLayerPoint vp (multiplyBy (getSize vp) (1 / 2)))\<bar> < 1
              \<and> \<bar>py (bounds_center b)
                   - py (containerPointToLayerPoint vp (multiplyBy (getSize vp) (1 / 2)))\<bar> < 1)
           \<and> center (update vp s) = Some (getCenter vp)
           \<and> zoom (update vp s) = Some (getZoom vp)"
proof -
  let ?S = "getSize vp" and ?p = "padding s"
  let ?c = "containerPointToLayerPoint vp (multiplyBy ?S (- ?p))"
  let ?h = "containerPointToLayerPoint vp (multiplyBy ?S (1 / 2))"
  from update_rectangle [OF p sx sy] obtain b where
        b: "bounds (update vp s) = Some b"
    and mn: "bmin b = round_point ?c"
    and mx: "bmax b = \<lparr>px = px (bmin b) + of_int (round (px ?S * (1 + ?p * 2))),
                       py = py (bmin b) + of_int (round (py ?S * (1 + ?p * 2)))\<rparr>"
    by blast
  have ints: "px (bmin b) \<in> \<int>" "py (bmin b) \<in> \<int>"
    by (simp_all add: mn round_point_def)
  have near: "\<bar>px (bmin b) - px ?c\<bar> < 1" "\<bar>py (bmin b) - py ?c\<bar> < 1"
    using round_near [of "px ?c"] round_near [of "py ?c"] by (simp_all add: mn round_point_def)
  have w: "width b = of_int (round (px ?S * (1 + 2 * ?p)))"
    unfolding width_def mx by (simp add: mult.commute)
  have h: "height b = of_int (round (py ?S * (1 + 2 * ?p)))"
    unfolding height_def mx by (simp add: mult.commute)
  have ctr: "\<bar>px (bounds_center b) - px ?h\<bar> < 1 \<and> \<bar>py (bounds_center b) - py ?h\<bar> < 1"
    if t: "translation vp d"
  proof -
    have cx: "px ?h = px ?c + px ?S * (1 + ?p * 2) / 2"
     and cy: "py ?h = py ?c + py ?S * (1 + ?p * 2) / 2"
      using t by (simp_all add: translation_def subtract_def multiplyBy_def field_simps)
    have "\<bar>px (bounds_center b) - px ?h\<bar> \<le> 3 / 4" "\<bar>py (bounds_center b) - py ?h\<bar> \<le> 3 / 4"
      unfolding cx cy
      using center_err [of "px ?c" "px ?S * (1 + ?p * 2)"]
            center_err [of "py ?c" "py ?S * (1 + ?p * 2)"]
      unfolding bounds_center_def mx by (simp_all add: mn round_point_def)
    then show ?thesis by linarith
  qed
  show ?thesis
    using b ints near ctr by (intro exI [of _ b]) (simp add: update_fields w h)
qed

text \<open>
  The method on a map 803 pixels wide, with the default padding: the rectangle runs from
  -80 to 884, 964 pixels wide and centred at 402, half a pixel from the viewport's centre.
\<close>

theorem update_bounds_witness:
  "\<exists>b. bounds (update map_803x600 two_shapes) = Some b
      \<and> b = \<lparr>bmin = \<lparr>px = - 80, py = - 60\<rparr>, bmax = \<lparr>px = 884, py = 660\<rparr>\<rparr>
      \<and> \<bar>px (bmin b) - (- 803 / 10)\<bar> < 1 \<and> \<bar>py (bmin b) - (- 60)\<bar> < 1
      \<and> \<bar>width b - 964\<bar> \<le> 1 \<and> \<bar>height b - 720\<bar> \<le> 1
      \<and> \<bar>px (bounds_center b) - 803 / 2\<bar> < 1 \<and> \<bar>py (bounds_center b) - 300\<bar> < 1
      \<and> center (update map_803x600 two_shapes) = Some (0, 0)
      \<and> zoom (update map_803x600 two_shapes) = Some 5"
  using update_bounds [of two_shapes map_803x600 "\<lparr>px = 0, py = 0\<rparr>"] update_803x600
  by (simp add: two_shapes_fields map_803x600_fields translation_def subtract_def multiplyBy_def
        round_def width_def height_def bounds_center_def)


section \<open>What each notification does\<close>

text \<open>
  C3, as amended. When a \<open>moveend\<close> notification is handled, the core recomputes the
  bounds and refreshes the cached center and zoom; it calls \<open>_project()\<close> on no shape and
  applies no transform.
\<close>

theorem moveend_recomputes_bounds_only:
  "bounds (notify vp ''moveend'' ev s) = Some (new_Bounds
         (round_point (containerPointToLayerPoint vp (multiplyBy (getSize vp) (- padding s))))
         (round_point (add_point
            (round_point (containerPointToLayerPoint vp (multiplyBy (getSize vp) (- padding s))))
            (multiplyBy (getSize vp) (1 + padding s * 2)))))
   \<and> center (notify vp ''moveend'' ev s) = Some (getCenter vp)
   \<and> zoom (notify vp ''moveend'' ev s) = Some (getZoom vp)
   \<and> shape_calls CB_project (trace (notify vp ''moveend'' ev s)) = shape_calls CB_project (trace s)
   \<and> transforms (trace (notify vp ''moveend'' ev s)) = transforms (trace s)"
  by (simp add: notify_kinds this_update_fields this_update_calls update_fields)

text \<open>
  C3 as stated asks for one \<open>_project()\<close> per registered shape and for a transform. A
  renderer holding two shapes, on the 800 by 600 map, handles \<open>moveend\<close> with the three
  stores alone; that of a backend fires \<open>update\<close> after them, which brings each shape an
  \<open>_update()\<close>. Neither projects a shape or sets a transform.
\<close>

theorem moveend_counterexample:
  "layers two_shapes = Some [(3, ''polyline''), (8, ''circle'')]
   \<and> trace (notify map_800x600 ''moveend'' settled two_shapes)
       = [SetBounds \<lparr>bmin = \<lparr>px = - 80, py = - 60\<rparr>, bmax = \<lparr>px = 880, py = 660\<rparr>\<rparr>,
          SetCenter (0, 0), SetZoom 5]
   \<and> layers backend_attached = Some [(3, ''polyline''), (8, ''circle'')]
   \<and> trace (notify map_800x600 ''moveend'' settled backend_attached)
       = trace backend_attached
         @ [SetBounds \<lparr>bmin = \<lparr>px = - 80, py = - 60\<rparr>, bmax = \<lparr>px = 880, py = 660\<rparr>\<rparr>,
            SetCenter (0, 0), SetZoom 5, Fire ''update'',
            ShapeCall CB_update 3 ''polyline'', ShapeCall CB_update 8 ''circle'']
   \<and> shape_calls CB_project (trace (notify map_800x600 ''moveend'' settled backend_attached)) = []
   \<and> transforms (trace (notify map_800x600 ''moveend'' settled backend_attached)) = []"
  using update_800x600
  by (simp add: notify_kinds this_update_eq two_shapes_fields backend_attached_fields
        map_800x600_fields registered_def update_def Let_def)

text \<open>
  C4. When a \<open>zoomend\<close> notification is handled, every shape in the registry \<open>_layers\<close>
  receives \<open>_project()\<close>, once for each entry and in the registry's order; the handler
  recomputes no bounds (bounds, center and zoom stay as they were), sets no transform and
  calls no \<open>_update()\<close> or \<open>_reset()\<close>.
\<close>

theorem zoomend_projects_every_shape:
  "(let shapes = (case layers s of None \<Rightarrow> [] | Some ls \<Rightarrow> ls)
    in notify vp ''zoomend'' ev s =
         s\<lparr>trace := trace s @ map (\<lambda>(id, shape). ShapeCall CB_project id shape) shapes\<rparr>
       \<and> shape_calls CB_project (trace (notify vp ''zoomend'' ev s))
           = shape_calls CB_project (trace s) @ shapes)
   \<and> shape_calls CB_update (trace (notify vp ''zoomend'' ev s)) = shape_calls CB_update (trace s)
   \<and> shape_calls CB_reset (trace (notify vp ''zoomend'' ev s)) = shape_calls CB_reset (trace s)
   \<and> transforms (trace (notify vp ''zoomend'' ev s)) = transforms (trace s)
   \<and> bounds (notify vp ''zoomend'' ev s) = bounds s
   \<and> center (notify vp ''zoomend'' ev s) = center s
   \<and> zoom (notify vp ''zoomend'' ev s) = zoom s"
  by (simp add: notify_kinds onZoomEnd_def for_in_layers_def registered_def shape_calls_append
        transforms_append shape_calls_dispatch transforms_dispatch)

text \<open>The end of a zoom on the attached renderer: its two shapes are projected.\<close>

theorem zoomend_projects_every_shape_witness:
  "layers attached = Some [(3, ''polyline''), (8, ''circle'')]
   \<and> trace (notify map_800x600 ''zoomend'' settled attached)
       = trace attached
         @ [ShapeCall CB_project 3 ''polyline'', ShapeCall CB_project 8 ''circle'']
   \<and> shape_calls CB_project (trace (notify map_800x600 ''zoomend'' settled attached))
       = shape_calls CB_project (trace attached) @ [(3, ''polyline''), (8, ''circle'')]"
  using zoomend_projects_every_shape [of attached map_800x600 settled]
  by (simp add: attached_fields Let_def shape_calls_append)




text \<open>
  C8. Handling a frame of a zoom animation sets the transform computed for the frame's
  center and zoom and does nothing else: bounds, cached center, cached zoom and the
  registry are unchanged and no shape receives a callback. On a map that animates its
  zooms, this is how a \<open>zoomanim\<close> notification is handled.
\<close>

theorem onAnimZoom_frame:
  "onAnimZoom vp ev s =
     s\<lparr>trace := trace s @
         [SetTransform
            (subtract
               (add_point
                  (multiplyBy (multiplyBy (getSize vp) (0.5 + padding s))
                     (- getZoomScale vp (ev_zoom ev) (zoom s)))
                  (project vp (center s) (ev_zoom ev)))
               (getNewPixelOrigin vp (ev_center ev) (ev_zoom ev)))
            (getZoomScale vp (ev_zoom ev) (zoom s))]\<rparr>
   \<and> bounds (onAnimZoom vp ev s) = bounds s
   \<and> center (onAnimZoom vp ev s) = center s
   \<and> zoom (onAnimZoom vp ev s) = zoom s
   \<and> layers (onAnimZoom vp ev s) = layers s
   \<and> shape_calls cb (trace (onAnimZoom vp ev s)) = shape_calls cb (trace s)
   \<and> (zoomAnimated s \<longrightarrow> notify vp ''zoomanim'' ev s = onAnimZoom vp ev s)"
  by (simp add: onAnimZoom_def updateTransform_def Let_def shape_calls_append
        notify_def getEvents_def invoke_def)

text \<open>A frame towards zoom 6 on the attached renderer: the surface is scaled by 2.\<close>

theorem onAnimZoom_frame_witness:
  "zoomAnimated attached
   \<and> notify map_800x600 ''zoomanim'' frame_to_6 attached
       = attached\<lparr>trace := trace attached @ [SetTransform \<lparr>px = - 560, py = - 420\<rparr> 2]\<rparr>"
  using onAnimZoom_frame [of map_800x600 frame_to_6 attached]
  by (simp add: attached_fields frame_to_6_def frame6 map_800x600_fields multiplyBy_def
        add_point_def subtract_def)


section \<open>The transform at the cached view\<close>

text \<open>
  C5, as amended. Computing the transform with the cached center and zoom as target, on
  a viewport for which \<open>getZoomScale(z, z) = 1\<close>, yields unit scale and the offset
  \<open>project(cachedCenter, cachedZoom) - size * (0.5 + padding) - newPixelOrigin(cachedCenter,
  cachedZoom)\<close>, the place of the padded surface's top left corner.
\<close>

theorem updateTransform_at_cached_view:
  assumes "center s = Some c" and "zoom s = Some z" and "getZoomScale vp z (Some z) = 1"
  shows "updateTransform vp c z s =
           s\<lparr>trace := trace s @
              [SetTransform
                 (subtract (subtract (project vp (Some c) z)
                                     (multiplyBy (getSize vp) (0.5 + padding s)))
                           (getNewPixelOrigin vp c z)) 1]\<rparr>"
  using assms
  by (simp add: updateTransform_def Let_def multiplyBy_def add_point_def subtract_def)

text \<open>On the 800 by 600 map, right after \<open>_update\<close>.\<close>

theorem updateTransform_at_cached_view_witness:
  "center (update map_800x600 two_shapes) = Some (0, 0)
   \<and> zoom (update map_800x600 two_shapes) = Some 5
   \<and> getZoomScale map_800x600 5 (Some 5) = 1
   \<and> trace (updateTransform map_800x600 (0, 0) 5 (update map_800x600 two_shapes))
       = trace (update map_800x600 two_shapes) @ [SetTransform \<lparr>px = - 80, py = - 60\<rparr> 1]"
  using updateTransform_at_cached_view [of "update map_800x600 two_shapes" "(0, 0)" 5 map_800x600]
  by (simp add: update_fields map_800x600_fields two_shapes_fields subtract_def multiplyBy_def)

text \<open>
  C5 as stated asks for a zero offset. On the 800 by 600 map with the default padding,
  target equal to the cached view and \<open>getZoomScale(5, 5) = 1\<close>, the offset is
  \<open>(-80, -60)\<close>.
\<close>

theorem updateTransform_identity_counterexample:
  "center (update map_800x600 two_shapes) = Some (0, 0)
   \<and> zoom (update map_800x600 two_shapes) = Some 5
   \<and> getZoomScale map_800x600 5 (Some 5) = 1
   \<and> transforms (trace (updateTransform map_800x600 (0, 0) 5 (update map_800x600 two_shapes)))
       = [(\<lparr>px = - 80, py = - 60\<rparr>, 1)]"
  by (simp add: updateTransform_def Let_def update_fields map_800x600_fields two_shapes_fields
        subtract_def multiplyBy_def add_point_def transforms_append)
     (simp add: update_def Let_def two_shapes_fields)


section \<open>Attaching\<close>

text \<open>
  C7, as amended. On attach, \<open>onAdd\<close> creates the container if there is none, appends it
  to the pane, recomputes the bounds (with the cached center and zoom), and then
  subscribes \<open>_updatePaths\<close> to the renderer's \<open>update\<close> notification, in that order; it
  applies no transform. (Where the renderer's \<open>_update\<close> fires \<open>update\<close>, that comes with the
  bounds, before the subscription.)
\<close>

theorem onAdd_order:
  "(let b = new_Bounds
         (round_point (containerPointToLayerPoint vp (multiplyBy (getSize vp) (- padding s))))
         (round_point (add_point
            (round_point (containerPointToLayerPoint vp (multiplyBy (getSize vp) (- padding s))))
            (multiplyBy (getSize vp) (1 + padding s * 2))));
        c = getCenter vp;
        z = getZoom vp;
        shapes = (case layers s of None \<Rightarrow> [] | Some ls \<Rightarrow> ls)
    in onAdd vp s =
         s\<lparr>container := True, update_listener := True,
           bounds := Some b, center := Some c, zoom := Some z,
           trace := trace s
             @ (if container s then [] else [InitContainer, ClassListAdd ''leaflet-zoom-animated''])
             @ [AppendChild, SetBounds b, SetCenter c, SetZoom z]
             @ (if fires_update s
                then Fire ''update''
                  # (if update_listener s
                     then map (\<lambda>(id, shape). ShapeCall CB_update id shape) shapes
                     else [])
                else [])
             @ [On ''update'' M_updatePaths]\<rparr>)
   \<and> transforms (trace (onAdd vp s)) = transforms (trace s)"
  by (cases "container s")
     (simp_all add: onAdd_def this_update_eq update_def Let_def registered_def transforms_append
        transforms_dispatch)

text \<open>A first attach to the 800 by 600 map.\<close>

theorem onAdd_order_witness:
  "trace (onAdd map_800x600 two_shapes)
     = [InitContainer, ClassListAdd ''leaflet-zoom-animated'', AppendChild,
        SetBounds \<lparr>bmin = \<lparr>px = - 80, py = - 60\<rparr>, bmax = \<lparr>px = 880, py = 660\<rparr>\<rparr>,
        SetCenter (0, 0), SetZoom 5, On ''update'' M_updatePaths]"
  using onAdd_order [of map_800x600 two_shapes] update_800x600
  by (simp add: Let_def two_shapes_fields map_800x600_fields update_fields)

text \<open>
  C7 as stated has a transform applied between the bounds and the subscription. The
  attach above sets none.
\<close>

theorem onAdd_transform_counterexample:
  "transforms (trace (onAdd map_800x600 two_shapes)) = []"
  by (simp add: onAdd_def this_update_eq update_def Let_def two_shapes_fields transforms_append)


section \<open>The padding option\<close>

text \<open>
  C9, as amended. The padding option defaults to 0.1, and construction does not validate
  it: every supplied value is stored as it is, and the stored value is the one that the
  bounds and the transform are computed with.
\<close>

theorem initialize_padding:
  "padding (initialize None lastId (prototype :: ('geo, 'shape) renderer)) = 1 / 10
   \<and> padding (initialize (Some \<lparr>opt_padding = None\<rparr>) lastId (prototype :: ('geo, 'shape) renderer))
       = 1 / 10
   \<and> padding (initialize (Some \<lparr>opt_padding = Some p\<rparr>) lastId (this :: ('geo, 'shape) renderer)) = p
   \<and> bounds (update vp (initialize (Some \<lparr>opt_padding = Some p\<rparr>) lastId this))
       = Some (new_Bounds
           (round_point (containerPointToLayerPoint vp (multiplyBy (getSize vp) (- p))))
           (round_point (add_point
              (round_point (containerPointToLayerPoint vp (multiplyBy (getSize vp) (- p))))
              (multiplyBy (getSize vp) (1 + p * 2)))))
   \<and> transforms (trace (updateTransform vp c z (initialize (Some \<lparr>opt_padding = Some p\<rparr>) lastId this)))
       = transforms (trace this)
         @ [(subtract
               (add_point
                  (multiplyBy (multiplyBy (getSize vp) (0.5 + p)) (- getZoomScale vp z (zoom this)))
                  (project vp (center this) z))
               (getNewPixelOrigin vp c z),
             getZoomScale vp z (zoom this))]"
  by (simp add: initialize_fields update_fields updateTransform_def Let_def transforms_append)
     (simp add: prototype_def)

text \<open>
  C9 as stated has construction accept a padding only if it is non-negative. A padding
  of -1/4 is accepted, and the bounds computed with it lie inside the 800 by 600 view.
\<close>

theorem initialize_negative_padding_counterexample:
  "padding (initialize (Some \<lparr>opt_padding = Some (- 1 / 4)\<rparr>) 0
              (prototype :: (real \<times> real, string) renderer)) = - 1 / 4
   \<and> bounds (update map_800x600
               (initialize (Some \<lparr>opt_padding = Some (- 1 / 4)\<rparr>) 0
                  (prototype :: (real \<times> real, string) renderer)))
       = Some \<lparr>bmin = \<lparr>px = 200, py = 150\<rparr>, bmax = \<lparr>px = 600, py = 450\<rparr>\<rparr>"
  by (simp add: initialize_fields update_fields map_800x600_fields multiplyBy_def add_point_def
        round_point_def new_Bounds_def round_def)


section \<open>The registry\<close>

text \<open>
  C10. No method of the class adds or removes an entry of the registry. \<open>initialize\<close>
  keeps a registry that is already there (and starts an empty one otherwise); every other
  method, and so every notification, leaves \<open>_layers\<close> as it is; \<open>_reset\<close>, \<open>_onZoomEnd\<close>
  and \<open>_updatePaths\<close> call their callback once for each entry of the registry, in its
  order.
\<close>

theorem registry_untouched:
  "layers (initialize options lastId this) = Some (registered this)
   \<and> registered (initialize options lastId this) = registered this
   \<and> layers (reset vp s) = layers s
   \<and> layers (onZoomEnd s) = layers s
   \<and> layers (updatePaths s) = layers s
   \<and> layers (update vp s) = layers s
   \<and> layers (updateTransform vp c z s) = layers s
   \<and> layers (onZoom vp s) = layers s
   \<and> layers (onAnimZoom vp ev s) = layers s
   \<and> layers (onAdd vp s) = layers s
   \<and> layers (onRemove s) = layers s
   \<and> layers (notify vp kind ev s) = layers s
   \<and> shape_calls CB_reset (trace (reset vp s)) = shape_calls CB_reset (trace s) @ registered s
   \<and> shape_calls CB_project (trace (onZoomEnd s)) = shape_calls CB_project (trace s) @ registered s
   \<and> shape_calls CB_update (trace (updatePaths s)) = shape_calls CB_update (trace s) @ registered s"
  by (simp add: reset_layers notify_layers reset_calls initialize_fields
        onZoomEnd_def updatePaths_def for_in_layers_fields updateTransform_fields update_fields
        onZoom_def onAnimZoom_def onAdd_fields onRemove_fields shape_calls_append
        shape_calls_dispatch)
     (simp add: registered_def initialize_fields)

end
